theory Spec2Isabelle
  imports Complex_Main
begin

section \<open>Green Cart Logistics: the delivery simulation of backend/routes/simulation.js\<close>

text \<open>
  The embedding follows \<^verbatim>\<open>backend/routes/simulation.js\<close> and the Mongoose schemas under
  \<^verbatim>\<open>backend/models\<close>. A JavaScript Number is modelled as an exact rational: sums,
  products by 5, 2 and 0.1 and the division by the fatigue multiplier are computed without
  the rounding of IEEE doubles. Counters that the code only increments are naturals. The
  calls of \<^verbatim>\<open>Math.random()\<close> are an explicit source \<open>rng\<close>: \<open>rng k\<close> is the value of the
  \<open>k\<close>-th call of a run, and the loop state counts the calls made so far.
\<close>

subsection \<open>Numbers and their rendering\<close>

definition Math_round :: "rat \<Rightarrow> int" where
  \<comment> \<open>\<^verbatim>\<open>Math.round\<close>: the nearest integer, a tie going to the larger one.\<close>
  "Math_round x = \<lfloor>x + 1 / 2\<rfloor>"

definition digit_char :: "nat \<Rightarrow> char" where
  "digit_char d = char_of (48 + d)"

fun nat_to_string :: "nat \<Rightarrow> string" where
  \<comment> \<open>The decimal text of a template literal \<^verbatim>\<open>${n}\<close> for a non-negative integer.\<close>
  "nat_to_string n =
     (if n < 10 then [digit_char n] else nat_to_string (n div 10) @ [digit_char (n mod 10)])"

declare nat_to_string.simps [simp del]

definition int_to_string :: "int \<Rightarrow> string" where
  "int_to_string i = (if i < 0 then CHR ''-'' # nat_to_string (nat (- i)) else nat_to_string (nat i))"

subsection \<open>The stored documents (backend/models)\<close>

datatype traffic = Low | Medium | High

record driver =
  driver_id :: nat \<comment> \<open>the document's \<^verbatim>\<open>_id\<close>\<close>
  name :: string
  shift_hours :: rat
  past_week_hours :: "rat list"

record route =
  route_id :: int
  distance :: rat
  traffic_level :: traffic
  base_time :: rat

record order =
  order_id :: int
  value_rs :: rat
  order_route_id :: int \<comment> \<open>the order's \<^verbatim>\<open>route_id\<close>\<close>
  delivery_time :: string

record params =
  available_drivers :: int
  start_time :: string
  max_hours_per_day :: int

record fuel_costs =
  base_cost :: int
  surcharge :: int
  total :: int

record simulation_result =
  total_profit :: int
  efficiency_score :: rat
  on_time_deliveries :: nat
  late_deliveries :: nat
  fuel_cost_breakdown :: fuel_costs
  simulation_params :: params
  timestamp :: string

text \<open>The collections of the store, each in the order \<^verbatim>\<open>find()\<close> returns it.\<close>

record store =
  drivers :: "driver list"
  routes :: "route list"
  orders :: "order list"

datatype js_error =
    Error string \<comment> \<open>\<^verbatim>\<open>throw new Error(message)\<close>\<close>
  | TypeError \<comment> \<open>reading \<^verbatim>\<open>_id\<close> of \<^verbatim>\<open>undefined\<close>\<close>
  | ValidationError \<comment> \<open>a document the schema refuses on \<^verbatim>\<open>save()\<close>\<close>

definition limit :: "int \<Rightarrow> 'a list \<Rightarrow> 'a list" where
  \<comment> \<open>\<^verbatim>\<open>find().limit(n)\<close> for \<open>n \<ge> 1\<close>, the only values the handler lets through: the
      first \<open>n\<close> documents.\<close>
  "limit n xs = take (nat n) xs"

subsection \<open>timeToMinutes\<close>

fun split_colon :: "string \<Rightarrow> string list" where
  \<comment> \<open>\<^verbatim>\<open>timeString.split(':')\<close>\<close>
  "split_colon [] = [[]]"
| "split_colon (c # cs) =
     (if c = CHR '':'' then [] # split_colon cs
      else (case split_colon cs of [] \<Rightarrow> [[c]] | p # ps \<Rightarrow> (c # p) # ps))"

definition is_digit :: "char \<Rightarrow> bool" where
  "is_digit c = (48 \<le> (of_char c :: nat) \<and> (of_char c :: nat) \<le> 57)"

definition digit_value :: "char \<Rightarrow> nat" where
  "digit_value c = of_char c - 48"

definition Number_of :: "string \<Rightarrow> rat option" where
  \<comment> \<open>\<^verbatim>\<open>Number(s)\<close> on the texts a stored time is made of: decimal digits give their
      value, the empty text gives 0, and \<open>None\<close> stands for \<^verbatim>\<open>NaN\<close>.\<close>
  "Number_of s =
     (if list_all is_digit s then Some (of_nat (foldl (\<lambda>a c. 10 * a + digit_value c) 0 s))
      else None)"

definition timeToMinutes :: "string \<Rightarrow> rat option" where
  \<comment> \<open>\<^verbatim>\<open>[hours, minutes] = timeString.split(':').map(Number); hours * 60 + minutes\<close>;
      a missing part is \<^verbatim>\<open>undefined\<close> and makes the sum \<^verbatim>\<open>NaN\<close>.\<close>
  "timeToMinutes timeString =
     (case map Number_of (split_colon timeString) of
        Some hours # Some minutes # _ \<Rightarrow> Some (hours * 60 + minutes)
      | _ \<Rightarrow> None)"

subsection \<open>runDeliverySimulation\<close>

definition build_routeMap :: "route list \<Rightarrow> (int \<rightharpoonup> route)" where
  \<comment> \<open>\<^verbatim>\<open>routes.forEach(route => { routeMap[route.route_id] = route; })\<close>\<close>
  "build_routeMap rs = fold (\<lambda>r m. m(route_id r \<mapsto> r)) rs Map.empty"

definition yesterdayHours :: "driver \<Rightarrow> rat option" where
  \<comment> \<open>\<^verbatim>\<open>driver.past_week_hours[driver.past_week_hours.length - 1]\<close>; \<open>None\<close> is the
      \<^verbatim>\<open>undefined\<close> an empty array gives.\<close>
  "yesterdayHours d =
     (if past_week_hours d = [] then None else Some (last (past_week_hours d)))"

definition fatigue_of :: "driver \<Rightarrow> rat" where
  \<comment> \<open>\<^verbatim>\<open>yesterdayHours > 8 ? 0.7 : 1.0\<close>; \<^verbatim>\<open>undefined > 8\<close> is false.\<close>
  "fatigue_of d = (case yesterdayHours d of Some h \<Rightarrow> (if h > 8 then 7 / 10 else 1) | None \<Rightarrow> 1)"

definition build_driverFatigue :: "driver list \<Rightarrow> (nat \<rightharpoonup> rat)" where
  \<comment> \<open>\<^verbatim>\<open>drivers.forEach(driver => { driverFatigue[driver._id] = ... })\<close>\<close>
  "build_driverFatigue ds = fold (\<lambda>d m. m(driver_id d \<mapsto> fatigue_of d)) ds Map.empty"

text \<open>The variables the loop updates, with the number of random draws made so far.\<close>

record sim_state =
  totalProfit :: rat
  onTimeDeliveries :: nat
  lateDeliveries :: nat
  totalFuelCost :: rat
  totalSurcharge :: rat
  draws :: nat

definition initial_state :: sim_state where
  "initial_state = \<lparr>totalProfit = 0, onTimeDeliveries = 0, lateDeliveries = 0,
     totalFuelCost = 0, totalSurcharge = 0, draws = 0\<rparr>"

definition random_index :: "(nat \<Rightarrow> rat) \<Rightarrow> nat \<Rightarrow> nat \<Rightarrow> int" where
  \<comment> \<open>\<^verbatim>\<open>Math.floor(Math.random() * drivers.length)\<close> at the \<open>k\<close>-th draw\<close>
  "random_index rng k n = \<lfloor>rng k * of_nat n\<rfloor>"

definition isOnTime :: "rat \<Rightarrow> rat option \<Rightarrow> bool" where
  \<comment> \<open>\<^verbatim>\<open>baseRouteMinutes / fatigueMultiplier <= baseRouteMinutes + 10\<close>; a multiplier
      missing from the table makes the quotient \<^verbatim>\<open>NaN\<close>, and the comparison false.\<close>
  "isOnTime baseRouteMinutes fatigueMultiplier =
     (case fatigueMultiplier of
        None \<Rightarrow> False
      | Some m \<Rightarrow> baseRouteMinutes / m \<le> baseRouteMinutes + 10)"

definition simulate_order ::
  "driver list \<Rightarrow> (nat \<rightharpoonup> rat) \<Rightarrow> (nat \<Rightarrow> rat) \<Rightarrow> route \<Rightarrow> order \<Rightarrow> sim_state
     \<Rightarrow> js_error + sim_state" where
  \<comment> \<open>The body of the loop for an order whose route was found.\<close>
  "simulate_order ds driverFatigue rng r ord s =
     (let baseFuelCost = distance r * 5;
          surcharge = (if traffic_level r = High then distance r * 2 else 0);
          orderFuelCost = baseFuelCost + surcharge;
          s1 = s\<lparr>totalFuelCost := totalFuelCost s + baseFuelCost,
                 totalSurcharge := totalSurcharge s + surcharge\<rparr>;
          expectedDeliveryMinutes = timeToMinutes (delivery_time ord);
          baseRouteMinutes = base_time r;
          i = random_index rng (draws s) (length ds);
          s2 = s1\<lparr>draws := Suc (draws s)\<rparr>
      in if i < 0 \<or> int (length ds) \<le> i then Inl TypeError
         else
           let randomDriver = ds ! nat i;
               fatigueMultiplier = driverFatigue (driver_id randomDriver);
               s3 = (if isOnTime baseRouteMinutes fatigueMultiplier
                     then
                       (let s' = s2\<lparr>onTimeDeliveries := Suc (onTimeDeliveries s2)\<rparr>
                        in if value_rs ord > 1000
                           then s'\<lparr>totalProfit := totalProfit s' + value_rs ord * (1 / 10)\<rparr>
                           else s')
                     else s2\<lparr>lateDeliveries := Suc (lateDeliveries s2),
                             totalProfit := totalProfit s2 - 50\<rparr>)
           in Inr (s3\<lparr>totalProfit := totalProfit s3 + (value_rs ord - orderFuelCost)\<rparr>))"

fun process_orders ::
  "(int \<rightharpoonup> route) \<Rightarrow> driver list \<Rightarrow> (nat \<rightharpoonup> rat) \<Rightarrow> (nat \<Rightarrow> rat) \<Rightarrow> order list
     \<Rightarrow> sim_state \<Rightarrow> js_error + sim_state" where
  \<comment> \<open>\<^verbatim>\<open>for (const order of orders) { ... }\<close>\<close>
  "process_orders routeMap ds driverFatigue rng [] s = Inr s"
| "process_orders routeMap ds driverFatigue rng (ord # rest) s =
     (case routeMap (order_route_id ord) of
        None \<Rightarrow> process_orders routeMap ds driverFatigue rng rest s
      | Some r \<Rightarrow>
          (case simulate_order ds driverFatigue rng r ord s of
             Inl e \<Rightarrow> Inl e
           | Inr s' \<Rightarrow> process_orders routeMap ds driverFatigue rng rest s'))"

definition efficiencyScore :: "sim_state \<Rightarrow> rat" where
  "efficiencyScore s =
     (let totalDeliveries = onTimeDeliveries s + lateDeliveries s
      in if totalDeliveries > 0
         then (of_nat (onTimeDeliveries s) / of_nat totalDeliveries) * 100
         else 0)"

definition make_result :: "sim_state \<Rightarrow> params \<Rightarrow> string \<Rightarrow> simulation_result" where
  \<comment> \<open>The object the function returns.\<close>
  "make_result s p now =
     \<lparr>total_profit = Math_round (totalProfit s),
      efficiency_score = of_int (Math_round (efficiencyScore s * 10)) / 10,
      on_time_deliveries = onTimeDeliveries s,
      late_deliveries = lateDeliveries s,
      fuel_cost_breakdown =
        \<lparr>base_cost = Math_round (totalFuelCost s),
         surcharge = Math_round (totalSurcharge s),
         total = Math_round (totalFuelCost s + totalSurcharge s)\<rparr>,
      simulation_params = p,
      timestamp = now\<rparr>"

definition drivers_message :: "nat \<Rightarrow> int \<Rightarrow> string" where
  \<comment> \<open>\<^verbatim>\<open>`Only ${count} drivers available, but ${available_drivers} requested`\<close>\<close>
  "drivers_message count requested =
     ''Only '' @ nat_to_string count @ '' drivers available, but '' @
     int_to_string requested @ '' requested''"

definition runDeliverySimulation ::
  "store \<Rightarrow> (nat \<Rightarrow> rat) \<Rightarrow> string \<Rightarrow> params \<Rightarrow> js_error + simulation_result" where
  "runDeliverySimulation db rng now p =
     (let ds = limit (available_drivers p) (drivers db);
          rs = routes db;
          os = orders db
      in if int (length ds) < available_drivers p
         then Inl (Error (drivers_message (length ds) (available_drivers p)))
         else
           (case process_orders (build_routeMap rs) ds (build_driverFatigue ds) rng os
                   initial_state of
              Inl e \<Rightarrow> Inl e
            | Inr s \<Rightarrow> Inr (make_result s p now)))"

subsection \<open>The request validators\<close>

text \<open>
  The pattern of \<^verbatim>\<open>body('start_time').matches(...)\<close> is kept as a syntax tree and run by a
  backtracking matcher: \<open>rmatch r s\<close> lists what is left of \<open>s\<close> after each way \<open>r\<close>
  matches a prefix of it. The pattern is anchored at both ends.
\<close>

datatype regex =
    Lit char
  | Range char char
  | Opt regex
  | Alt regex regex
  | Seq regex regex

fun rmatch :: "regex \<Rightarrow> string \<Rightarrow> string list" where
  "rmatch (Lit c) s = (case s of [] \<Rightarrow> [] | x # xs \<Rightarrow> if x = c then [xs] else [])"
| "rmatch (Range lo hi) s =
     (case s of
        [] \<Rightarrow> []
      | x # xs \<Rightarrow>
          if (of_char lo :: nat) \<le> of_char x \<and> (of_char x :: nat) \<le> of_char hi then [xs]
          else [])"
| "rmatch (Opt r) s = rmatch r s @ [s]"
| "rmatch (Alt a b) s = rmatch a s @ rmatch b s"
| "rmatch (Seq a b) s = concat (map (rmatch b) (rmatch a s))"

definition matches :: "regex \<Rightarrow> string \<Rightarrow> bool" where
  "matches r s = ([] \<in> set (rmatch r s))"

definition hour_pattern :: regex where
  \<comment> \<open>\<^verbatim>\<open>([0-1]?[0-9]|2[0-3])\<close>\<close>
  "hour_pattern =
     Alt (Seq (Opt (Range CHR ''0'' CHR ''1'')) (Range CHR ''0'' CHR ''9''))
         (Seq (Lit CHR ''2'') (Range CHR ''0'' CHR ''3''))"

definition minute_pattern :: regex where
  \<comment> \<open>\<^verbatim>\<open>:[0-5][0-9]\<close>\<close>
  "minute_pattern = Seq (Lit CHR '':'') (Seq (Range CHR ''0'' CHR ''5'') (Range CHR ''0'' CHR ''9''))"

definition time_pattern :: regex where
  \<comment> \<open>\<^verbatim>\<open>/^([0-1]?[0-9]|2[0-3]):[0-5][0-9]$/\<close>\<close>
  "time_pattern = Seq hour_pattern minute_pattern"

record field_error =
  param :: string
  msg :: string

definition check :: "bool \<Rightarrow> string \<Rightarrow> string \<Rightarrow> field_error list" where
  \<comment> \<open>One validation chain: no error when the test holds, its message otherwise.\<close>
  "check ok field message = (if ok then [] else [\<lparr>param = field, msg = message\<rparr>])"

definition validateSimulation :: "params \<Rightarrow> field_error list" where
  "validateSimulation b =
     check (1 \<le> available_drivers b) ''available_drivers''
       ''Available drivers must be at least 1'' @
     check (matches time_pattern (start_time b)) ''start_time''
       ''Start time must be in HH:MM format'' @
     check (1 \<le> max_hours_per_day b \<and> max_hours_per_day b \<le> 24) ''max_hours_per_day''
       ''Max hours per day must be between 1 and 24''"

subsection \<open>POST /api/simulation/run\<close>

datatype body =
    Result simulation_result \<comment> \<open>\<^verbatim>\<open>res.json(result)\<close>\<close>
  | Message string \<comment> \<open>\<^verbatim>\<open>{ message }\<close>\<close>
  | Invalid string "field_error list" \<comment> \<open>\<^verbatim>\<open>{ message, errors }\<close>\<close>
  | Failure string js_error \<comment> \<open>\<^verbatim>\<open>{ message, error }\<close>\<close>

record response =
  status :: nat
  json :: body

text \<open>The application's data: the three collections and the stored simulation results.\<close>

record app_state =
  db :: store
  history :: "simulation_result list"

definition schema_accepts :: "simulation_result \<Rightarrow> bool" where
  \<comment> \<open>The bounds of \<^verbatim>\<open>simulationResultSchema\<close>: \<^verbatim>\<open>efficiency_score\<close> in 0..100, both
      delivery counts at least 0; the other fields have no bound.\<close>
  "schema_accepts r =
     (0 \<le> efficiency_score r \<and> efficiency_score r \<le> 100 \<and>
      0 \<le> on_time_deliveries r \<and> 0 \<le> late_deliveries r)"

definition save :: "simulation_result \<Rightarrow> simulation_result list \<Rightarrow> js_error + simulation_result list" where
  \<comment> \<open>\<^verbatim>\<open>new SimulationResult(result).save()\<close>\<close>
  "save r h = (if schema_accepts r then Inr (h @ [r]) else Inl ValidationError)"

definition router_post_run ::
  "app_state \<Rightarrow> (nat \<Rightarrow> rat) \<Rightarrow> string \<Rightarrow> params \<Rightarrow> response \<times> app_state" where
  \<comment> \<open>The handler behind the \<^verbatim>\<open>auth\<close> middleware; \<open>b\<close> is \<^verbatim>\<open>req.body\<close>.\<close>
  "router_post_run st rng now b =
     (let errors = validateSimulation b
      in if errors \<noteq> [] then (\<lparr>status = 400, json = Invalid ''Validation failed'' errors\<rparr>, st)
         else
           let driverCount = length (drivers (db st))
           in if available_drivers b > int driverCount
              then (\<lparr>status = 400,
                      json = Message (drivers_message driverCount (available_drivers b))\<rparr>, st)
              else
                (case runDeliverySimulation (db st) rng now
                        \<lparr>available_drivers = available_drivers b, start_time = start_time b,
                         max_hours_per_day = max_hours_per_day b\<rparr> of
                   Inl e \<Rightarrow> (\<lparr>status = 500, json = Failure ''Simulation failed'' e\<rparr>, st)
                 | Inr result \<Rightarrow>
                     (case save result (history st) of
                        Inl e \<Rightarrow> (\<lparr>status = 500, json = Failure ''Simulation failed'' e\<rparr>, st)
                      | Inr h \<Rightarrow> (\<lparr>status = 200, json = Result result\<rparr>, st\<lparr>history := h\<rparr>))))"

subsection \<open>Notions the properties are stated with\<close>

definition processed_routes :: "store \<Rightarrow> route list" where
  \<comment> \<open>The route of each order that has one, in the order of the orders.\<close>
  "processed_routes sto =
     List.map_filter (\<lambda>ord. build_routeMap (routes sto) (order_route_id ord)) (orders sto)"

definition fatigued :: "driver \<Rightarrow> bool" where
  \<comment> \<open>The last entry of \<^verbatim>\<open>past_week_hours\<close> exceeds 8.\<close>
  "fatigued d = (past_week_hours d \<noteq> [] \<and> last (past_week_hours d) > 8)"

definition picked_driver :: "(nat \<Rightarrow> rat) \<Rightarrow> nat \<Rightarrow> driver list \<Rightarrow> driver" where
  \<comment> \<open>The driver the \<open>k\<close>-th draw selects from a non-empty list.\<close>
  "picked_driver rng k ds = ds ! nat (random_index rng k (length ds))"

definition kpi ::
  "simulation_result \<Rightarrow> int \<times> rat \<times> nat \<times> nat \<times> fuel_costs" where
  \<comment> \<open>The computed fields of a result: all but the echoed parameters and the timestamp.\<close>
  "kpi r = (total_profit r, efficiency_score r, on_time_deliveries r, late_deliveries r,
            fuel_cost_breakdown r)"



subsection \<open>The data of tests/simulation.test.js, and a few more documents\<close>

definition test_driver1 :: driver where
  "test_driver1 = \<lparr>driver_id = 1, name = ''Test Driver 1'', shift_hours = 8,
     past_week_hours = [8, 8, 8, 8, 8, 6, 0]\<rparr>"

definition test_driver2 :: driver where
  "test_driver2 = \<lparr>driver_id = 2, name = ''Test Driver 2'', shift_hours = 10,
     past_week_hours = [10, 9, 8, 8, 9, 7, 0]\<rparr>"

definition tired_driver :: driver where
  "tired_driver = \<lparr>driver_id = 3, name = ''Tired Driver'', shift_hours = 10,
     past_week_hours = [8, 8, 8, 8, 8, 8, 9]\<rparr>"

definition rested_driver :: driver where
  "rested_driver = \<lparr>driver_id = 4, name = ''Rested Driver'', shift_hours = 8,
     past_week_hours = [8, 8, 8, 8, 8, 6, 5]\<rparr>"

definition test_route1 :: route where
  "test_route1 = \<lparr>route_id = 1, distance = 5, traffic_level = Low, base_time = 30\<rparr>"

definition test_route2 :: route where
  "test_route2 = \<lparr>route_id = 2, distance = 8, traffic_level = High, base_time = 45\<rparr>"

definition short_route :: route where
  "short_route = \<lparr>route_id = 3, distance = 3 / 4, traffic_level = High, base_time = 20\<rparr>"

definition test_order1 :: order where
  "test_order1 = \<lparr>order_id = 1, value_rs = 500, order_route_id = 1, delivery_time = ''01:00''\<rparr>"

definition test_order2 :: order where
  "test_order2 = \<lparr>order_id = 2, value_rs = 1500, order_route_id = 2, delivery_time = ''01:30''\<rparr>"

definition short_order :: order where
  "short_order = \<lparr>order_id = 3, value_rs = 200, order_route_id = 3, delivery_time = ''00:30''\<rparr>"

definition dangling_order :: order where
  "dangling_order = \<lparr>order_id = 4, value_rs = 900, order_route_id = 7, delivery_time = ''02:00''\<rparr>"

definition cheap_order :: order where
  "cheap_order = \<lparr>order_id = 5, value_rs = 1, order_route_id = 1, delivery_time = ''01:00''\<rparr>"

definition big_order :: order where
  "big_order = \<lparr>order_id = 6, value_rs = 1500, order_route_id = 1, delivery_time = ''01:00''\<rparr>"

definition test_store :: store where
  "test_store = \<lparr>drivers = [test_driver1, test_driver2], routes = [test_route1, test_route2],
     orders = [test_order1, test_order2]\<rparr>"

definition mixed_store :: store where
  \<comment> \<open>A rested and a fatigued driver, and one order on the route of base time 30.\<close>
  "mixed_store = \<lparr>drivers = [test_driver1, tired_driver], routes = [test_route1],
     orders = [test_order1]\<rparr>"

definition test_params :: params where
  "test_params = \<lparr>available_drivers = 2, start_time = ''09:00'', max_hours_per_day = 8\<rparr>"

definition one_driver :: params where
  "one_driver = \<lparr>available_drivers = 1, start_time = ''09:00'', max_hours_per_day = 8\<rparr>"

definition ten_drivers :: params where
  "ten_drivers = \<lparr>available_drivers = 10, start_time = ''09:00'', max_hours_per_day = 8\<rparr>"

definition bad_request :: params where
  "bad_request = \<lparr>available_drivers = - 1, start_time = ''25:00'', max_hours_per_day = 30\<rparr>"

definition test_app :: app_state where
  "test_app = \<lparr>db = test_store, history = []\<rparr>"

definition test_now :: string where
  "test_now = ''2024-01-15T10:30:00.000Z''"

definition first_driver :: "nat \<Rightarrow> rat" where
  \<comment> \<open>A random source whose every draw is 0: the first driver is picked.\<close>
  "first_driver k = 0"

definition second_of_two :: "nat \<Rightarrow> rat" where
  \<comment> \<open>A random source whose every draw is 0.5: of two drivers, the second is picked.\<close>
  "second_of_two k = 1 / 2"

section \<open>Properties\<close>

subsection \<open>Evaluation and auxiliary facts\<close>

lemmas fixtures = test_driver1_def test_driver2_def tired_driver_def test_route1_def test_route2_def
  short_route_def test_order1_def test_order2_def short_order_def dangling_order_def cheap_order_def
  test_store_def test_params_def one_driver_def test_now_def first_driver_def second_of_two_def
  rested_driver_def big_order_def ten_drivers_def bad_request_def test_app_def mixed_store_def

lemmas validators = validateSimulation_def check_def matches_def time_pattern_def hour_pattern_def
  minute_pattern_def

lemmas engine = runDeliverySimulation_def limit_def build_routeMap_def build_driverFatigue_def
  initial_state_def simulate_order_def Let_def random_index_def isOnTime_def fatigue_of_def
  yesterdayHours_def make_result_def Math_round_def efficiencyScore_def

lemma floor_rat_numeral_div [simp]: "\<lfloor>(numeral a :: rat) / numeral b\<rfloor> = numeral a div numeral b"
  using floor_divide_of_int_eq [of "numeral a" "numeral b", where ?'a = rat] by simp

lemma floor_rat_one_div [simp]: "\<lfloor>(1 :: rat) / numeral b\<rfloor> = 1 div numeral b"
  using floor_divide_of_int_eq [of 1 "numeral b", where ?'a = rat] by simp

lemma floor_rat_neg_numeral_div [simp]:
  "\<lfloor>- ((numeral a :: rat) / numeral b)\<rfloor> = - numeral a div numeral b"
  using floor_divide_of_int_eq [of "- numeral a" "numeral b", where ?'a = rat] by simp

lemma routeMap_fold_dom:
  "dom (fold (\<lambda>r m. m(route_id r \<mapsto> r)) rs m) = dom m \<union> route_id ` set rs"
  by (induction rs arbitrary: m) auto

lemma build_routeMap_None:
  "build_routeMap rs k = None \<longleftrightarrow> k \<notin> route_id ` set rs"
proof -
  have "dom (build_routeMap rs) = route_id ` set rs"
    by (simp add: build_routeMap_def routeMap_fold_dom)
  then show ?thesis by (metis domIff)
qed

lemma process_orders_append:
  "process_orders rm ds df rng (xs @ ys) s =
     (case process_orders rm ds df rng xs s of
        Inl e \<Rightarrow> Inl e
      | Inr s' \<Rightarrow> process_orders rm ds df rng ys s')"
  by (induction xs arbitrary: s) (auto split: option.splits sum.splits)

lemma process_orders_skip:
  "rm (order_route_id ord) = None \<Longrightarrow>
   process_orders rm ds df rng (xs @ ord # ys) s = process_orders rm ds df rng (xs @ ys) s"
  by (simp add: process_orders_append split: sum.splits)



lemma random_index_bounds:
  assumes "0 \<le> rng k" "rng k < 1" "0 < n"
  shows "0 \<le> random_index rng k n" "random_index rng k n < int n"
proof -
  have "0 \<le> rng k * of_nat n" using assms by simp
  then show "0 \<le> random_index rng k n" by (simp add: random_index_def)
  have "rng k * of_nat n < of_nat n" using assms by simp
  then have "rng k * of_nat n < of_int (int n)" by simp
  then show "random_index rng k n < int n" unfolding random_index_def by (simp only: floor_less_iff)
qed









lemma build_driverFatigue_snoc:
  "build_driverFatigue (ds @ [d]) = (build_driverFatigue ds)(driver_id d \<mapsto> fatigue_of d)"
  by (simp add: build_driverFatigue_def)


lemma fatigue_of_fatigued: "fatigue_of d = (if fatigued d then 7 / 10 else 1)"
  by (simp add: fatigue_of_def yesterdayHours_def fatigued_def)

lemma on_time_rested: "isOnTime b (Some 1)"
  by (simp add: isOnTime_def)

lemma on_time_fatigued: "isOnTime b (Some (7 / 10)) \<longleftrightarrow> b \<le> 70 / 3"
  by (simp add: isOnTime_def field_simps)

lemma limit_length: "length (limit n xs) = min (nat n) (length xs)"
  by (simp add: limit_def)




lemma picked_driver_in_set:
  assumes "ds \<noteq> []" "0 \<le> rng k" "rng k < 1"
  shows "picked_driver rng k ds \<in> set ds"
proof -
  from random_index_bounds [of rng k "length ds"] assms
  have "0 \<le> random_index rng k (length ds)" "random_index rng k (length ds) < int (length ds)"
    by simp_all
  then have "nat (random_index rng k (length ds)) < length ds" by linarith
  then show ?thesis unfolding picked_driver_def by (rule nth_mem)
qed


lemma random_index_single:
  assumes "0 \<le> rng k" "rng k < 1"
  shows "random_index rng k (Suc 0) = 0"
  using random_index_bounds [of rng k "Suc 0"] assms by simp

lemma simulate_order_delivery_time:
  "simulate_order ds df rng r (ord\<lparr>delivery_time := t\<rparr>) s = simulate_order ds df rng r ord s"
  by (simp add: simulate_order_def Let_def)

lemma process_orders_delivery_time:
  assumes "list_all2 (\<lambda>ord ord'. ord' = ord\<lparr>delivery_time := delivery_time ord'\<rparr>) os os'"
  shows "process_orders rm ds df rng os' s = process_orders rm ds df rng os s"
  using assms
proof (induction os os' arbitrary: s rule: list_all2_induct)
  case Nil
  show ?case by simp
next
  case (Cons x xs y ys)
  from Cons.hyps(1) have y: "y = x\<lparr>delivery_time := delivery_time y\<rparr>" .
  have rid: "order_route_id y = order_route_id x" by (subst y) simp
  have step: "simulate_order ds df rng r y s = simulate_order ds df rng r x s" for r
    by (subst y) (rule simulate_order_delivery_time)
  show ?case by (simp add: rid step Cons.IH split: option.splits sum.splits)
qed

lemma kpi_make_result: "kpi (make_result s p now) = kpi (make_result s p' now')"
  by (simp add: kpi_def make_result_def)














lemma params_eta:
  "\<lparr>available_drivers = available_drivers b, start_time = start_time b,
      max_hours_per_day = max_hours_per_day b\<rparr> = (b :: params)"
  by simp

lemma router_post_run_ok:
  assumes "validateSimulation b = []" "available_drivers b \<le> int (length (drivers (db st)))"
    and "runDeliverySimulation (db st) rng now b = Inr r" "schema_accepts r"
  shows "router_post_run st rng now b =
           (\<lparr>status = 200, json = Result r\<rparr>, st\<lparr>history := history st @ [r]\<rparr>)"
  unfolding router_post_run_def Let_def params_eta using assms by (simp add: save_def)

lemma driverFatigue_values:
  "d \<in> set ds \<Longrightarrow> \<exists>d' \<in> set ds. build_driverFatigue ds (driver_id d) = Some (fatigue_of d')"
proof (induction ds rule: rev_induct)
  case Nil
  then show ?case by simp
next
  case (snoc x xs)
  show ?case
  proof (cases "driver_id d = driver_id x")
    case True
    then show ?thesis by (simp add: build_driverFatigue_snoc)
  next
    case False
    with snoc.prems have "d \<in> set xs" by auto
    from snoc.IH [OF this] False show ?thesis by (auto simp: build_driverFatigue_snoc)
  qed
qed

lemma simulate_order_same:
  assumes "0 \<le> rng1 (draws s)" "rng1 (draws s) < 1" "0 \<le> rng2 (draws s)" "rng2 (draws s) < 1"
    and "ds \<noteq> [] \<Longrightarrow>
      isOnTime (base_time r) (df (driver_id (picked_driver rng1 (draws s) ds))) =
      isOnTime (base_time r) (df (driver_id (picked_driver rng2 (draws s) ds)))"
  shows "simulate_order ds df rng1 r ord s = simulate_order ds df rng2 r ord s"
proof (cases "ds = []")
  case True
  then show ?thesis by (simp add: simulate_order_def Let_def random_index_def)
next
  case False
  with random_index_bounds [of rng1 "draws s" "length ds"]
    random_index_bounds [of rng2 "draws s" "length ds"] assms
  show ?thesis by (simp add: simulate_order_def Let_def picked_driver_def)
qed

lemma process_orders_same:
  assumes r1: "\<forall>k. 0 \<le> rng1 k \<and> rng1 k < 1" and r2: "\<forall>k. 0 \<le> rng2 k \<and> rng2 k < 1"
    and same: "\<And>ord r d1 d2. ord \<in> set os \<Longrightarrow> rm (order_route_id ord) = Some r \<Longrightarrow>
      d1 \<in> set ds \<Longrightarrow> d2 \<in> set ds \<Longrightarrow>
      isOnTime (base_time r) (df (driver_id d1)) = isOnTime (base_time r) (df (driver_id d2))"
  shows "process_orders rm ds df rng1 os s = process_orders rm ds df rng2 os s"
  using same
proof (induction os arbitrary: s)
  case Nil
  show ?case by simp
next
  case (Cons ord os)
  have IH: "process_orders rm ds df rng1 os s' = process_orders rm ds df rng2 os s'" for s'
  proof (rule Cons.IH)
    fix ord' r d1 d2
    assume "ord' \<in> set os" "rm (order_route_id ord') = Some r" "d1 \<in> set ds" "d2 \<in> set ds"
    then show "isOnTime (base_time r) (df (driver_id d1)) = isOnTime (base_time r) (df (driver_id d2))"
      by (intro Cons.prems [of ord' r]) simp_all
  qed
  show ?case
  proof (cases "rm (order_route_id ord)")
    case None
    then show ?thesis by (simp add: IH)
  next
    case (Some r)
    have "simulate_order ds df rng1 r ord s = simulate_order ds df rng2 r ord s"
    proof (rule simulate_order_same)
      show "0 \<le> rng1 (draws s)" "rng1 (draws s) < 1" "0 \<le> rng2 (draws s)" "rng2 (draws s) < 1"
        using r1 r2 by simp_all
      assume ne: "ds \<noteq> []"
      have "picked_driver rng1 (draws s) ds \<in> set ds" "picked_driver rng2 (draws s) ds \<in> set ds"
        using picked_driver_in_set [of ds rng1 "draws s"] picked_driver_in_set [of ds rng2 "draws s"]
          ne r1 r2 by simp_all
      then show "isOnTime (base_time r) (df (driver_id (picked_driver rng1 (draws s) ds))) =
        isOnTime (base_time r) (df (driver_id (picked_driver rng2 (draws s) ds)))"
        by (intro Cons.prems [of ord r] Some) simp_all
    qed
    with Some show ?thesis by (simp add: IH split: sum.splits)
  qed
qed

lemma processed_routes_mem:
  "ord \<in> set (orders sto) \<Longrightarrow> build_routeMap (routes sto) (order_route_id ord) = Some r \<Longrightarrow>
   r \<in> set (processed_routes sto)"
  by (force simp: processed_routes_def List.map_filter_def)

lemma run_same:
  assumes r1: "\<forall>k. 0 \<le> rng1 k \<and> rng1 k < 1" and r2: "\<forall>k. 0 \<le> rng2 k \<and> rng2 k < 1"
    and same: "\<And>ord r d1 d2. ord \<in> set (orders sto) \<Longrightarrow>
      build_routeMap (routes sto) (order_route_id ord) = Some r \<Longrightarrow>
      d1 \<in> set (limit (available_drivers p) (drivers sto)) \<Longrightarrow>
      d2 \<in> set (limit (available_drivers p) (drivers sto)) \<Longrightarrow>
      isOnTime (base_time r)
        (build_driverFatigue (limit (available_drivers p) (drivers sto)) (driver_id d1)) =
      isOnTime (base_time r)
        (build_driverFatigue (limit (available_drivers p) (drivers sto)) (driver_id d2))"
  shows "runDeliverySimulation sto rng1 now p = runDeliverySimulation sto rng2 now p"
proof -
  have "process_orders (build_routeMap (routes sto)) (limit (available_drivers p) (drivers sto))
      (build_driverFatigue (limit (available_drivers p) (drivers sto))) rng1 (orders sto)
      initial_state =
    process_orders (build_routeMap (routes sto)) (limit (available_drivers p) (drivers sto))
      (build_driverFatigue (limit (available_drivers p) (drivers sto))) rng2 (orders sto)
      initial_state"
    by (rule process_orders_same [OF r1 r2]) (rule same)
  then show ?thesis unfolding runDeliverySimulation_def Let_def by simp
qed

lemma differing_runs_need:
  assumes r1: "\<forall>k. 0 \<le> rng1 k \<and> rng1 k < 1" and r2: "\<forall>k. 0 \<le> rng2 k \<and> rng2 k < 1"
    and diff: "runDeliverySimulation sto rng1 now p \<noteq> runDeliverySimulation sto rng2 now p"
  shows "(\<exists>d \<in> set (limit (available_drivers p) (drivers sto)). fatigued d) \<and>
         (\<exists>d \<in> set (limit (available_drivers p) (drivers sto)). \<not> fatigued d) \<and>
         (\<exists>r \<in> set (processed_routes sto). 70 / 3 < base_time r)"
proof (rule ccontr)
  let ?ds = "limit (available_drivers p) (drivers sto)"
  assume neg: "\<not> ?thesis"
  have "runDeliverySimulation sto rng1 now p = runDeliverySimulation sto rng2 now p"
  proof (rule run_same [OF r1 r2])
    fix ord r d1 d2
    assume o: "ord \<in> set (orders sto)"
      and r: "build_routeMap (routes sto) (order_route_id ord) = Some r"
      and d1: "d1 \<in> set ?ds" and d2: "d2 \<in> set ?ds"
    from driverFatigue_values [OF d1] obtain e1 where
      e1: "e1 \<in> set ?ds" "build_driverFatigue ?ds (driver_id d1) = Some (fatigue_of e1)" by blast
    from driverFatigue_values [OF d2] obtain e2 where
      e2: "e2 \<in> set ?ds" "build_driverFatigue ?ds (driver_id d2) = Some (fatigue_of e2)" by blast
    from processed_routes_mem [OF o r] have pr: "r \<in> set (processed_routes sto)" .
    from neg consider (rested) "\<forall>d \<in> set ?ds. \<not> fatigued d" | (tired) "\<forall>d \<in> set ?ds. fatigued d"
      | (near) "\<forall>r \<in> set (processed_routes sto). base_time r \<le> 70 / 3"
      by (auto simp: not_less)
    then show "isOnTime (base_time r) (build_driverFatigue ?ds (driver_id d1)) =
      isOnTime (base_time r) (build_driverFatigue ?ds (driver_id d2))"
    proof cases
      case rested
      with e1 e2 show ?thesis by (simp add: fatigue_of_fatigued)
    next
      case tired
      with e1 e2 show ?thesis by (simp add: fatigue_of_fatigued)
    next
      case near
      with pr have "base_time r \<le> 70 / 3" by blast
      then show ?thesis
        unfolding e1(2) e2(2) fatigue_of_fatigued
        by (simp add: on_time_rested on_time_fatigued)
    qed
  qed
  with diff show False by contradiction
qed

subsection \<open>Orders without a route\<close>

text \<open>
  C1. An order whose \<^verbatim>\<open>route_id\<close> is the id of no stored route changes nothing: the run
  over the orders with that order in any position returns exactly what the run without it
  returns (the same result, hence the same profit, fuel costs and delivery counts, or the
  same error), for the same random draws.
\<close>

theorem dangling_order_skipped:
  assumes "order_route_id ord \<notin> route_id ` set (routes sto)"
  shows "runDeliverySimulation (sto\<lparr>orders := xs @ ord # ys\<rparr>) rng now p =
         runDeliverySimulation (sto\<lparr>orders := xs @ ys\<rparr>) rng now p"
  using assms
  by (simp add: runDeliverySimulation_def Let_def process_orders_skip build_routeMap_None)

theorem dangling_order_skipped_witness:
  "order_route_id dangling_order \<notin> route_id ` set (routes test_store) \<and>
   runDeliverySimulation (test_store\<lparr>orders := [test_order1] @ dangling_order # [test_order2]\<rparr>)
     second_of_two test_now test_params =
   runDeliverySimulation (test_store\<lparr>orders := [test_order1] @ [test_order2]\<rparr>)
     second_of_two test_now test_params"
proof -
  have h: "order_route_id dangling_order \<notin> route_id ` set (routes test_store)"
    by (simp add: fixtures)
  from dangling_order_skipped [OF h] h show ?thesis by blast
qed

subsection \<open>Delivery counts and the efficiency score\<close>



subsection \<open>The fuel cost breakdown\<close>




subsection \<open>Driver fatigue and the on-time test\<close>



subsection \<open>The end-to-end scenarios\<close>

text \<open>
  C5. One stored driver whose last day is 5 hours, one route of distance 5, Low traffic and
  base time 30, one order on that route, one driver requested: with an order value of 500
  the run returns 1 on-time and 0 late deliveries, fuel costs 25 + 0 = 25, a profit of 475
  and an efficiency score of 100; with an order value of 1500 the profit is 1625.
\<close>

theorem single_driver_scenario:
  assumes d: "past_week_hours d \<noteq> []" "last (past_week_hours d) = 5"
    and r: "route_id r = order_route_id ord" "distance r = 5" "traffic_level r = Low"
      "base_time r = 30"
    and rng: "0 \<le> rng 0" "rng 0 < 1"
    and p: "available_drivers p = 1"
  shows "(value_rs ord = 500 \<longrightarrow>
            runDeliverySimulation \<lparr>drivers = [d], routes = [r], orders = [ord]\<rparr> rng now p =
              Inr \<lparr>total_profit = 475, efficiency_score = 100, on_time_deliveries = 1,
                   late_deliveries = 0,
                   fuel_cost_breakdown = \<lparr>base_cost = 25, surcharge = 0, total = 25\<rparr>,
                   simulation_params = p, timestamp = now\<rparr>) \<and>
         (value_rs ord = 1500 \<longrightarrow>
            runDeliverySimulation \<lparr>drivers = [d], routes = [r], orders = [ord]\<rparr> rng now p =
              Inr \<lparr>total_profit = 1625, efficiency_score = 100, on_time_deliveries = 1,
                   late_deliveries = 0,
                   fuel_cost_breakdown = \<lparr>base_cost = 25, surcharge = 0, total = 25\<rparr>,
                   simulation_params = p, timestamp = now\<rparr>)"
proof -
  have idx: "random_index rng 0 (Suc 0) = 0" using rng by (rule random_index_single)
  have fat: "fatigue_of d = 1" using d by (simp add: fatigue_of_def yesterdayHours_def)
  have rm: "build_routeMap [r] (order_route_id ord) = Some r"
    using r(1) by (simp add: build_routeMap_def)
  have df: "build_driverFatigue [d] (driver_id d) = Some 1"
    using fat by (simp add: build_driverFatigue_def)
  have step: "simulate_order [d] (build_driverFatigue [d]) rng r ord initial_state =
      Inr \<lparr>totalProfit = (if value_rs ord > 1000 then value_rs ord * (1 / 10) else 0) + (value_rs ord - 25),
           onTimeDeliveries = 1, lateDeliveries = 0, totalFuelCost = 25, totalSurcharge = 0,
           draws = 1\<rparr>"
    using idx df r by (simp add: simulate_order_def Let_def initial_state_def isOnTime_def)
  have run: "runDeliverySimulation \<lparr>drivers = [d], routes = [r], orders = [ord]\<rparr> rng now p =
      Inr (make_result \<lparr>totalProfit = (if value_rs ord > 1000 then value_rs ord * (1 / 10) else 0) + (value_rs ord - 25),
           onTimeDeliveries = 1, lateDeliveries = 0, totalFuelCost = 25, totalSurcharge = 0,
           draws = 1\<rparr> p now)"
    using p rm step by (simp add: runDeliverySimulation_def Let_def limit_def)
  show ?thesis
    unfolding run by (simp add: make_result_def efficiencyScore_def Math_round_def)
qed

theorem single_driver_scenario_witness:
  "past_week_hours rested_driver \<noteq> [] \<and> last (past_week_hours rested_driver) = 5 \<and>
   route_id test_route1 = order_route_id test_order1 \<and>
   route_id test_route1 = order_route_id big_order \<and>
   distance test_route1 = 5 \<and> traffic_level test_route1 = Low \<and> base_time test_route1 = 30 \<and>
   0 \<le> first_driver 0 \<and> first_driver 0 < 1 \<and> available_drivers one_driver = 1 \<and>
   value_rs test_order1 = 500 \<and> value_rs big_order = 1500 \<and>
   runDeliverySimulation
     \<lparr>drivers = [rested_driver], routes = [test_route1], orders = [test_order1]\<rparr>
     first_driver test_now one_driver =
     Inr \<lparr>total_profit = 475, efficiency_score = 100, on_time_deliveries = 1,
          late_deliveries = 0,
          fuel_cost_breakdown = \<lparr>base_cost = 25, surcharge = 0, total = 25\<rparr>,
          simulation_params = one_driver, timestamp = test_now\<rparr> \<and>
   runDeliverySimulation
     \<lparr>drivers = [rested_driver], routes = [test_route1], orders = [big_order]\<rparr>
     first_driver test_now one_driver =
     Inr \<lparr>total_profit = 1625, efficiency_score = 100, on_time_deliveries = 1,
          late_deliveries = 0,
          fuel_cost_breakdown = \<lparr>base_cost = 25, surcharge = 0, total = 25\<rparr>,
          simulation_params = one_driver, timestamp = test_now\<rparr>"
proof -
  have d: "past_week_hours rested_driver \<noteq> []" "last (past_week_hours rested_driver) = 5"
    by (simp_all add: fixtures)
  have r1: "route_id test_route1 = order_route_id test_order1"
    and r2: "route_id test_route1 = order_route_id big_order"
    and r: "distance test_route1 = 5" "traffic_level test_route1 = Low" "base_time test_route1 = 30"
    by (simp_all add: fixtures)
  have g: "0 \<le> first_driver 0" "first_driver 0 < 1" by (simp_all add: fixtures)
  have p: "available_drivers one_driver = 1" by (simp add: fixtures)
  have v: "value_rs test_order1 = 500" "value_rs big_order = 1500" by (simp_all add: fixtures)
  from single_driver_scenario [of rested_driver test_route1 test_order1 first_driver one_driver
      test_now] d r1 r g p v(1)
  have a: "runDeliverySimulation
     \<lparr>drivers = [rested_driver], routes = [test_route1], orders = [test_order1]\<rparr>
     first_driver test_now one_driver =
     Inr \<lparr>total_profit = 475, efficiency_score = 100, on_time_deliveries = 1,
          late_deliveries = 0,
          fuel_cost_breakdown = \<lparr>base_cost = 25, surcharge = 0, total = 25\<rparr>,
          simulation_params = one_driver, timestamp = test_now\<rparr>"
    by blast
  from single_driver_scenario [of rested_driver test_route1 big_order first_driver one_driver
      test_now] d r2 r g p v(2)
  have b: "runDeliverySimulation
     \<lparr>drivers = [rested_driver], routes = [test_route1], orders = [big_order]\<rparr>
     first_driver test_now one_driver =
     Inr \<lparr>total_profit = 1625, efficiency_score = 100, on_time_deliveries = 1,
          late_deliveries = 0,
          fuel_cost_breakdown = \<lparr>base_cost = 25, surcharge = 0, total = 25\<rparr>,
          simulation_params = one_driver, timestamp = test_now\<rparr>"
    by blast
  from d r1 r2 r g p v a b show ?thesis by blast
qed

subsection \<open>More drivers requested than stored\<close>

text \<open>
  C6. When \<^verbatim>\<open>available_drivers\<close> exceeds the number of stored drivers, the handler answers
  with status 400 and leaves the stored data, the history of results included, as it was;
  for a request that passes validation the body is the message naming the number of stored
  drivers and the number requested. The engine, called directly on such a store, returns
  the error with that same message instead of a result.
\<close>

theorem insufficient_drivers_rejected:
  assumes "int (length (drivers (db st))) < available_drivers b"
  shows "status (fst (router_post_run st rng now b)) = 400 \<and>
         snd (router_post_run st rng now b) = st \<and>
         (validateSimulation b = [] \<longrightarrow>
            json (fst (router_post_run st rng now b)) =
              Message (drivers_message (length (drivers (db st))) (available_drivers b))) \<and>
         runDeliverySimulation (db st) rng now b =
           Inl (Error (drivers_message (length (drivers (db st))) (available_drivers b)))"
proof -
  from assms have len: "length (limit (available_drivers b) (drivers (db st))) = length (drivers (db st))"
    by (simp add: limit_length)
  have eng: "runDeliverySimulation (db st) rng now b =
           Inl (Error (drivers_message (length (drivers (db st))) (available_drivers b)))"
    using assms by (simp add: runDeliverySimulation_def Let_def len)
  have rt: "router_post_run st rng now b =
      (if validateSimulation b \<noteq> []
       then (\<lparr>status = 400, json = Invalid ''Validation failed'' (validateSimulation b)\<rparr>, st)
       else (\<lparr>status = 400,
              json = Message (drivers_message (length (drivers (db st))) (available_drivers b))\<rparr>, st))"
    using assms by (simp add: router_post_run_def Let_def)
  show ?thesis using eng by (simp add: rt)
qed

theorem insufficient_drivers_rejected_witness:
  "int (length (drivers (db test_app))) < available_drivers ten_drivers \<and>
   validateSimulation ten_drivers = [] \<and>
   status (fst (router_post_run test_app first_driver test_now ten_drivers)) = 400 \<and>
   snd (router_post_run test_app first_driver test_now ten_drivers) = test_app \<and>
   json (fst (router_post_run test_app first_driver test_now ten_drivers)) =
     Message ''Only 2 drivers available, but 10 requested'' \<and>
   runDeliverySimulation (db test_app) first_driver test_now ten_drivers =
     Inl (Error ''Only 2 drivers available, but 10 requested'')"
proof -
  have h: "int (length (drivers (db test_app))) < available_drivers ten_drivers"
    by (simp add: fixtures)
  have v: "validateSimulation ten_drivers = []" by (simp add: validators fixtures)
  have m: "drivers_message (length (drivers (db test_app))) (available_drivers ten_drivers) =
      ''Only 2 drivers available, but 10 requested''"
    by code_simp
  from insufficient_drivers_rejected [OF h, of first_driver test_now] h v
  show ?thesis unfolding m by blast
qed

subsection \<open>Inputs the arithmetic does not read\<close>

text \<open>
  C7. With the drivers, the routes, the random draws and \<^verbatim>\<open>available_drivers\<close> fixed, the
  computed fields of the outcome (profit, efficiency score, delivery counts, fuel costs, or
  the error) stay the same when \<^verbatim>\<open>start_time\<close> and \<^verbatim>\<open>max_hours_per_day\<close> are replaced by any
  other values and the \<^verbatim>\<open>delivery_time\<close> of any of the orders is changed.
\<close>

theorem unused_inputs_noninterference:
  assumes "list_all2 (\<lambda>ord ord'. ord' = ord\<lparr>delivery_time := delivery_time ord'\<rparr>) os os'"
  shows "map_sum id kpi (runDeliverySimulation (sto\<lparr>orders := os'\<rparr>) rng now'
            (p\<lparr>start_time := t, max_hours_per_day := m\<rparr>)) =
         map_sum id kpi (runDeliverySimulation (sto\<lparr>orders := os\<rparr>) rng now p)"
  using kpi_make_result [of _ "p\<lparr>start_time := t, max_hours_per_day := m\<rparr>" now' p now]
  by (simp add: runDeliverySimulation_def Let_def process_orders_delivery_time [OF assms]
      split: sum.splits)

theorem unused_inputs_noninterference_witness:
  "list_all2 (\<lambda>ord ord'. ord' = ord\<lparr>delivery_time := delivery_time ord'\<rparr>)
     [test_order1, test_order2]
     [test_order1\<lparr>delivery_time := ''23:59''\<rparr>, test_order2\<lparr>delivery_time := ''00:00''\<rparr>] \<and>
   map_sum id kpi
     (runDeliverySimulation
        (test_store\<lparr>orders :=
           [test_order1\<lparr>delivery_time := ''23:59''\<rparr>, test_order2\<lparr>delivery_time := ''00:00''\<rparr>]\<rparr>)
        second_of_two ''2025-06-01T00:00:00.000Z''
        (test_params\<lparr>start_time := ''00:00'', max_hours_per_day := 24\<rparr>)) =
   map_sum id kpi
     (runDeliverySimulation (test_store\<lparr>orders := [test_order1, test_order2]\<rparr>)
        second_of_two test_now test_params)"
proof -
  have h: "list_all2 (\<lambda>ord ord'. ord' = ord\<lparr>delivery_time := delivery_time ord'\<rparr>)
     [test_order1, test_order2]
     [test_order1\<lparr>delivery_time := ''23:59''\<rparr>, test_order2\<lparr>delivery_time := ''00:00''\<rparr>]"
    by simp
  from unused_inputs_noninterference [OF h] h show ?thesis by blast
qed

subsection \<open>Dependence on the random picks\<close>

text \<open>
  C8. The outcome depends on the random picks. With a rested and a fatigued driver, one
  route of base time 30 and one order of value 500 on it, the run in which every draw is 0
  returns a profit of 475, an efficiency score of 100 and one on-time delivery, and the run
  in which every draw is 0.5 returns a profit of 425, a score of 0 and one late delivery.
  Two runs on the same data that differ in their outcome need a fatigued and a rested
  driver among the selected ones and a processed route whose base time exceeds 70/3.
\<close>

theorem random_pick_changes_outcome:
  "(\<forall>k. 0 \<le> first_driver k \<and> first_driver k < 1) \<and>
   (\<forall>k. 0 \<le> second_of_two k \<and> second_of_two k < 1) \<and>
   runDeliverySimulation mixed_store first_driver test_now test_params =
     Inr \<lparr>total_profit = 475, efficiency_score = 100, on_time_deliveries = 1,
          late_deliveries = 0,
          fuel_cost_breakdown = \<lparr>base_cost = 25, surcharge = 0, total = 25\<rparr>,
          simulation_params = test_params, timestamp = test_now\<rparr> \<and>
   runDeliverySimulation mixed_store second_of_two test_now test_params =
     Inr \<lparr>total_profit = 425, efficiency_score = 0, on_time_deliveries = 0,
          late_deliveries = 1,
          fuel_cost_breakdown = \<lparr>base_cost = 25, surcharge = 0, total = 25\<rparr>,
          simulation_params = test_params, timestamp = test_now\<rparr> \<and>
   ((\<forall>k. 0 \<le> rng1 k \<and> rng1 k < 1) \<and> (\<forall>k. 0 \<le> rng2 k \<and> rng2 k < 1) \<and>
    runDeliverySimulation sto rng1 now p \<noteq> runDeliverySimulation sto rng2 now p \<longrightarrow>
      (\<exists>d \<in> set (limit (available_drivers p) (drivers sto)). fatigued d) \<and>
      (\<exists>d \<in> set (limit (available_drivers p) (drivers sto)). \<not> fatigued d) \<and>
      (\<exists>r \<in> set (processed_routes sto). 70 / 3 < base_time r))"
proof -
  have a: "\<forall>k. 0 \<le> first_driver k \<and> first_driver k < 1" by (simp add: fixtures)
  have b: "\<forall>k. 0 \<le> second_of_two k \<and> second_of_two k < 1" by (simp add: fixtures)
  have c: "runDeliverySimulation mixed_store first_driver test_now test_params =
     Inr \<lparr>total_profit = 475, efficiency_score = 100, on_time_deliveries = 1,
          late_deliveries = 0,
          fuel_cost_breakdown = \<lparr>base_cost = 25, surcharge = 0, total = 25\<rparr>,
          simulation_params = test_params, timestamp = test_now\<rparr>"
    by (simp add: fixtures engine)
  have d: "runDeliverySimulation mixed_store second_of_two test_now test_params =
     Inr \<lparr>total_profit = 425, efficiency_score = 0, on_time_deliveries = 0,
          late_deliveries = 1,
          fuel_cost_breakdown = \<lparr>base_cost = 25, surcharge = 0, total = 25\<rparr>,
          simulation_params = test_params, timestamp = test_now\<rparr>"
    by (simp add: fixtures engine)
  from a b c d differing_runs_need [of rng1 rng2 sto now p] show ?thesis by blast
qed

theorem random_pick_changes_outcome_witness:
  "(\<forall>k. 0 \<le> first_driver k \<and> first_driver k < 1) \<and>
   (\<forall>k. 0 \<le> second_of_two k \<and> second_of_two k < 1) \<and>
   runDeliverySimulation mixed_store first_driver test_now test_params \<noteq>
     runDeliverySimulation mixed_store second_of_two test_now test_params \<and>
   (\<exists>d \<in> set (limit (available_drivers test_params) (drivers mixed_store)). fatigued d) \<and>
   (\<exists>d \<in> set (limit (available_drivers test_params) (drivers mixed_store)). \<not> fatigued d) \<and>
   (\<exists>r \<in> set (processed_routes mixed_store). 70 / 3 < base_time r)"
proof -
  note t = random_pick_changes_outcome [of first_driver second_of_two mixed_store test_now
      test_params]
  from t have a: "\<forall>k. 0 \<le> first_driver k \<and> first_driver k < 1"
    and b: "\<forall>k. 0 \<le> second_of_two k \<and> second_of_two k < 1" by blast+
  from t have "runDeliverySimulation mixed_store first_driver test_now test_params =
     Inr \<lparr>total_profit = 475, efficiency_score = 100, on_time_deliveries = 1,
          late_deliveries = 0,
          fuel_cost_breakdown = \<lparr>base_cost = 25, surcharge = 0, total = 25\<rparr>,
          simulation_params = test_params, timestamp = test_now\<rparr>"
    and "runDeliverySimulation mixed_store second_of_two test_now test_params =
     Inr \<lparr>total_profit = 425, efficiency_score = 0, on_time_deliveries = 0,
          late_deliveries = 1,
          fuel_cost_breakdown = \<lparr>base_cost = 25, surcharge = 0, total = 25\<rparr>,
          simulation_params = test_params, timestamp = test_now\<rparr>"
    by blast+
  then have ne: "runDeliverySimulation mixed_store first_driver test_now test_params \<noteq>
     runDeliverySimulation mixed_store second_of_two test_now test_params"
    by simp
  from t a b ne show ?thesis by blast
qed

subsection \<open>Request validation\<close>




subsection \<open>The sign of the profit\<close>

text \<open>
  C10. The profit is not kept above zero. One fatigued driver, the route of the tests with
  distance 5 and base time 30, and one order worth 1: the delivery is late, and the profit
  is 1 - 25 - 50 = -74. The handler answers with status 200 and stores the result: whether
  the schema accepts a result does not depend on its \<^verbatim>\<open>total_profit\<close>.
\<close>

theorem negative_total_profit:
  "runDeliverySimulation \<lparr>drivers = [tired_driver], routes = [test_route1], orders = [cheap_order]\<rparr>
     first_driver test_now one_driver =
     Inr \<lparr>total_profit = - 74, efficiency_score = 0, on_time_deliveries = 0, late_deliveries = 1,
          fuel_cost_breakdown = \<lparr>base_cost = 25, surcharge = 0, total = 25\<rparr>,
          simulation_params = one_driver, timestamp = test_now\<rparr> \<and>
   router_post_run
     \<lparr>db = \<lparr>drivers = [tired_driver], routes = [test_route1], orders = [cheap_order]\<rparr>, history = []\<rparr>
     first_driver test_now one_driver =
     (\<lparr>status = 200,
       json = Result \<lparr>total_profit = - 74, efficiency_score = 0, on_time_deliveries = 0,
          late_deliveries = 1,
          fuel_cost_breakdown = \<lparr>base_cost = 25, surcharge = 0, total = 25\<rparr>,
          simulation_params = one_driver, timestamp = test_now\<rparr>\<rparr>,
      \<lparr>db = \<lparr>drivers = [tired_driver], routes = [test_route1], orders = [cheap_order]\<rparr>,
       history = [\<lparr>total_profit = - 74, efficiency_score = 0, on_time_deliveries = 0,
          late_deliveries = 1,
          fuel_cost_breakdown = \<lparr>base_cost = 25, surcharge = 0, total = 25\<rparr>,
          simulation_params = one_driver, timestamp = test_now\<rparr>]\<rparr>) \<and>
   (\<forall>r n. schema_accepts (r\<lparr>total_profit := n\<rparr>) = schema_accepts r)"
proof -
  have run: "runDeliverySimulation \<lparr>drivers = [tired_driver], routes = [test_route1], orders = [cheap_order]\<rparr>
     first_driver test_now one_driver =
     Inr \<lparr>total_profit = - 74, efficiency_score = 0, on_time_deliveries = 0, late_deliveries = 1,
          fuel_cost_breakdown = \<lparr>base_cost = 25, surcharge = 0, total = 25\<rparr>,
          simulation_params = one_driver, timestamp = test_now\<rparr>"
    by (simp add: fixtures engine)
  have valid: "validateSimulation one_driver = []"
    by (simp add: validators fixtures)
  have n: "available_drivers one_driver = 1" by (simp add: fixtures)
  have "router_post_run
     \<lparr>db = \<lparr>drivers = [tired_driver], routes = [test_route1], orders = [cheap_order]\<rparr>, history = []\<rparr>
     first_driver test_now one_driver =
     (\<lparr>status = 200,
       json = Result \<lparr>total_profit = - 74, efficiency_score = 0, on_time_deliveries = 0,
          late_deliveries = 1,
          fuel_cost_breakdown = \<lparr>base_cost = 25, surcharge = 0, total = 25\<rparr>,
          simulation_params = one_driver, timestamp = test_now\<rparr>\<rparr>,
      \<lparr>db = \<lparr>drivers = [tired_driver], routes = [test_route1], orders = [cheap_order]\<rparr>,
       history = [\<lparr>total_profit = - 74, efficiency_score = 0, on_time_deliveries = 0,
          late_deliveries = 1,
          fuel_cost_breakdown = \<lparr>base_cost = 25, surcharge = 0, total = 25\<rparr>,
          simulation_params = one_driver, timestamp = test_now\<rparr>]\<rparr>)"
    by (subst router_post_run_ok [OF valid _ _ _]) (simp_all add: run n schema_accepts_def)
  moreover have "\<forall>r n. schema_accepts (r\<lparr>total_profit := n\<rparr>) = schema_accepts r"
    by (simp add: schema_accepts_def)
  ultimately show ?thesis using run by blast
qed

end
